theory Spec2Isabelle
  imports Main
begin

section \<open>Shared data model\<close>

text \<open>
  JavaScript exceptions as values. \<open>Error msg\<close> is \<^verbatim>\<open>throw new Error(msg)\<close>;
  \<open>TypeError\<close> is the exception the runtime raises when a property of
  \<^verbatim>\<open>undefined\<close> is read or \<^verbatim>\<open>undefined\<close> is called;
  \<open>UnexpectedToken symbol line column\<close> is the \<^verbatim>\<open>SyntaxError\<close> of
  \<^verbatim>\<open>Tokenizer.throwUnexpectedToken\<close>, kept as the three arguments its message
  is formatted from.
\<close>

datatype error =
    Error string
  | TypeError
  | UnexpectedToken "char option" int int

text \<open>
  The special symbols of \<^verbatim>\<open>special-symbols\<close>, as the comments of
  \<^verbatim>\<open>ll-parser.js\<close> write them: \<^verbatim>\<open>$\<close> for the end of input, and the Greek
  letter epsilon (here its two UTF-8 bytes) for the empty right-hand side.
\<close>

definition EOF :: string where
  "EOF = ''$''"

definition EPSILON :: string where
  "EPSILON = [CHR 0xCE, CHR 0xB5]"

text \<open>
  A grammar symbol wraps its name (\<^verbatim>\<open>new GrammarSymbol(EOF)\<close>,
  \<^verbatim>\<open>getSymbol()\<close>, \<^verbatim>\<open>isEOF()\<close>, \<^verbatim>\<open>isEpsilon()\<close>).
\<close>

datatype GrammarSymbol = GrammarSymbol (getSymbol: string)

definition isEOF :: "GrammarSymbol \<Rightarrow> bool" where
  "isEOF s = (getSymbol s = EOF)"

definition isEpsilon :: "GrammarSymbol \<Rightarrow> bool" where
  "isEpsilon s = (getSymbol s = EPSILON)"

datatype Production = Production (getRHS: "GrammarSymbol list")

text \<open>
  A token: \<^verbatim>\<open>type\<close>, \<^verbatim>\<open>value\<close> and the six location fields. The type of
  \<^verbatim>\<open>type\<close> is a parameter: the LL engine compares it with a symbol name, the
  generated tokenizer stores the numeric code \<^verbatim>\<open>tokensMap[tokenType]\<close>.
\<close>

record 'ty Token =
  tok_type :: 'ty
  tok_value :: string
  startOffset :: int
  endOffset :: int
  startLine :: int
  endLine :: int
  startColumn :: int
  endColumn :: int

section \<open>The LL(1) engine (\<^verbatim>\<open>src/ll/ll-parser.js\<close>)\<close>

text \<open>
  The collaborators of \<^verbatim>\<open>LLParser\<close> are parameters: the grammar
  (\<^verbatim>\<open>getStartSymbol\<close>, \<^verbatim>\<open>getProduction\<close>, \<^verbatim>\<open>isTokenSymbol\<close>), the
  object \<^verbatim>\<open>this._table.get()\<close> (a row per non-terminal, a production number per
  token type; a missing property is \<open>None\<close>) and the tokenizer
  (\<^verbatim>\<open>initString\<close>, \<^verbatim>\<open>getNextToken\<close>, \<^verbatim>\<open>hasMoreTokens\<close>) over its own
  state \<open>'ts\<close>.
\<close>

record Grammar =
  getStartSymbol :: string
  getProduction :: "nat \<Rightarrow> Production option"
  isTokenSymbol :: "GrammarSymbol \<Rightarrow> bool"

type_synonym LLParsingTable = "string \<Rightarrow> (string \<Rightarrow> nat option) option"

record 'ts TokenSource =
  ts_initString :: "string \<Rightarrow> 'ts"
  ts_getNextToken :: "'ts \<Rightarrow> error + (string Token \<times> 'ts)"
  ts_hasMoreTokens :: "'ts \<Rightarrow> bool"

text \<open>
  The mutable fields of an \<^verbatim>\<open>LLParser\<close>. The stack is a JavaScript array: its
  top is the last element (\<^verbatim>\<open>push\<close> appends, \<^verbatim>\<open>pop\<close> removes the last).
\<close>

record 'ts LLParser =
  stack :: "GrammarSymbol list"
  productionNumbers :: "nat list"
  tokenizer :: 'ts

definition parseError :: "string \<Rightarrow> error + 'a" where
  "parseError message = Inl (Error (''Parse error: '' @ message))"

definition unexpectedEndOfInput :: "error + 'a" where
  "unexpectedEndOfInput = parseError ''Unexpected end of input.''"

definition unexpectedToken :: "'ty Token \<Rightarrow> error + 'a" where
  "unexpectedToken token =
     (if tok_value token = EOF then unexpectedEndOfInput
      else parseError (''Unexpected token: '' @ tok_value token @ ''.''))"

text \<open>
  \<^verbatim>\<open>_getDerivedRHS\<close>. Reading \<^verbatim>\<open>[token.type]\<close> of a missing row raises
  TypeError; \<^verbatim>\<open>!nextProductionNumber\<close> holds of a missing cell and of the number
  0; \<^verbatim>\<open>getRHS()\<close> of a missing production raises TypeError.
\<close>

definition getDerivedRHS ::
  "Grammar \<Rightarrow> LLParsingTable \<Rightarrow> 'ts LLParser \<Rightarrow> GrammarSymbol \<Rightarrow> string Token
     \<Rightarrow> error + (GrammarSymbol list \<times> 'ts LLParser)" where
  "getDerivedRHS g tbl p topSym token =
     (case tbl (getSymbol topSym) of
        None \<Rightarrow> Inl TypeError
      | Some row \<Rightarrow>
          (case row (tok_type token) of
             None \<Rightarrow> unexpectedToken token
           | Some nextProductionNumber \<Rightarrow>
               if nextProductionNumber = 0 then unexpectedToken token
               else (case getProduction g nextProductionNumber of
                       None \<Rightarrow> Inl TypeError
                     | Some nextProduction \<Rightarrow>
                         Inr (rev (getRHS nextProduction),
                              p\<lparr>productionNumbers :=
                                   productionNumbers p @ [nextProductionNumber]\<rparr>))))"

text \<open>
  \<^verbatim>\<open>_doDerivation\<close>. \<^verbatim>\<open>derivedRHS[0]\<close> of an empty array is
  \<^verbatim>\<open>undefined\<close>, whose \<^verbatim>\<open>isEpsilon()\<close> raises TypeError.
\<close>

definition doDerivation ::
  "Grammar \<Rightarrow> LLParsingTable \<Rightarrow> 'ts LLParser \<Rightarrow> GrammarSymbol \<Rightarrow> string Token
     \<Rightarrow> error + 'ts LLParser" where
  "doDerivation g tbl p topSym token =
     (case getDerivedRHS g tbl p topSym token of
        Inl e \<Rightarrow> Inl e
      | Inr (derivedRHS, p') \<Rightarrow>
          (case derivedRHS of
             [] \<Rightarrow> Inl TypeError
           | s # _ \<Rightarrow>
               if \<not> isEpsilon s then Inr (p'\<lparr>stack := stack p' @ derivedRHS\<rparr>)
               else Inr p'))"

text \<open>
  One pass through the body of the \<^verbatim>\<open>do ... while\<close> loop of \<^verbatim>\<open>parse\<close>
  (lines 56 to 68), on the parser and the local \<^verbatim>\<open>token\<close>. \<^verbatim>\<open>pop()\<close> of
  an empty array is \<^verbatim>\<open>undefined\<close>, and both branches then read
  \<^verbatim>\<open>top.getSymbol()\<close>: TypeError.
\<close>

definition loopBody ::
  "Grammar \<Rightarrow> LLParsingTable \<Rightarrow> 'ts TokenSource \<Rightarrow> 'ts LLParser \<times> string Token
     \<Rightarrow> error + ('ts LLParser \<times> string Token)" where
  "loopBody g tbl tk s =
     (case s of (p, token) \<Rightarrow>
        if stack p = [] then Inl TypeError
        else
          let topSym = last (stack p);
              p1 = p\<lparr>stack := butlast (stack p)\<rparr>
          in if isTokenSymbol g topSym \<and> getSymbol topSym = tok_type token
             then (case ts_getNextToken tk (tokenizer p1) of
                     Inl e \<Rightarrow> Inl e
                   | Inr (token', ts') \<Rightarrow> Inr (p1\<lparr>tokenizer := ts'\<rparr>, token'))
             else (case doDerivation g tbl p1 topSym token of
                     Inl e \<Rightarrow> Inl e
                   | Inr p2 \<Rightarrow> Inr (p2, token)))"

text \<open>
  The \<^verbatim>\<open>do ... while\<close> loop (lines 55 to 70). \<open>None\<close> is a loop that never
  ends.
\<close>

partial_function (option) mainLoop ::
  "Grammar \<Rightarrow> LLParsingTable \<Rightarrow> 'ts TokenSource \<Rightarrow> 'ts LLParser \<times> string Token
     \<Rightarrow> (error + ('ts LLParser \<times> string Token)) option" where
  "mainLoop g tbl tk s =
     (case loopBody g tbl tk s of
        Inl e \<Rightarrow> Some (Inl e)
      | Inr s' \<Rightarrow>
          if ts_hasMoreTokens tk (tokenizer (fst s')) \<or> length (stack (fst s')) > 1
          then mainLoop g tbl tk s'
          else Some (Inr s'))"

text \<open>The \<^verbatim>\<open>while\<close> loop at the end of input (lines 74 to 76).\<close>

partial_function (option) eofLoop ::
  "Grammar \<Rightarrow> LLParsingTable \<Rightarrow> 'ts LLParser \<times> string Token
     \<Rightarrow> (error + ('ts LLParser \<times> string Token)) option" where
  "eofLoop g tbl s =
     (case s of (p, token) \<Rightarrow>
        if length (stack p) \<noteq> 1 then
          (if stack p = [] then Some (Inl TypeError)
           else (case doDerivation g tbl (p\<lparr>stack := butlast (stack p)\<rparr>)
                        (last (stack p)) token of
                   Inl e \<Rightarrow> Some (Inl e)
                 | Inr p' \<Rightarrow> eofLoop g tbl (p', token)))
        else Some (Inr s))"

text \<open>
  \<^verbatim>\<open>parse\<close>, lines 42 to 50: the tokenizer is initialised, the stack is set and
  the production numbers are emptied.
\<close>

definition parseInit :: "Grammar \<Rightarrow> 'ts TokenSource \<Rightarrow> 'ts LLParser \<Rightarrow> string \<Rightarrow> 'ts LLParser" where
  "parseInit g tk p string =
     p\<lparr>tokenizer := ts_initString tk string,
       stack := [GrammarSymbol EOF, GrammarSymbol (getStartSymbol g)],
       productionNumbers := []\<rparr>"

text \<open>
  \<^verbatim>\<open>parse\<close>, lines 42 to 76: initialisation, the first token, the main loop and
  the loop at the end of input.
\<close>

definition parseLoops ::
  "Grammar \<Rightarrow> LLParsingTable \<Rightarrow> 'ts TokenSource \<Rightarrow> 'ts LLParser \<Rightarrow> string
     \<Rightarrow> (error + ('ts LLParser \<times> string Token)) option" where
  "parseLoops g tbl tk p string =
     (let p0 = parseInit g tk p string
      in case ts_getNextToken tk (tokenizer p0) of
           Inl e \<Rightarrow> Some (Inl e)
         | Inr (token, ts') \<Rightarrow>
             (case mainLoop g tbl tk (p0\<lparr>tokenizer := ts'\<rparr>, token) of
                None \<Rightarrow> None
              | Some (Inl e) \<Rightarrow> Some (Inl e)
              | Some (Inr s) \<Rightarrow> eofLoop g tbl s))"

text \<open>
  \<^verbatim>\<open>Array.prototype.toString\<close> on the symbol names: the elements joined by
  commas.
\<close>

fun joinComma :: "string list \<Rightarrow> string" where
  "joinComma [] = []"
| "joinComma [x] = x"
| "joinComma (x # y # ys) = x @ '','' @ joinComma (y # ys)"

text \<open>The value \<^verbatim>\<open>parse\<close> returns.\<close>

record ParseResult =
  status :: string
  semanticValue :: bool

definition accept :: ParseResult where
  "accept = \<lparr>status = ''accept'', semanticValue = True\<rparr>"

text \<open>
  \<^verbatim>\<open>parse\<close>, whole: the final test of lines 80 to 85 and the result, returned
  with the parser it leaves behind. \<^verbatim>\<open>this._stack[0]\<close> of an empty array is
  \<^verbatim>\<open>undefined\<close>.
\<close>

definition parse ::
  "Grammar \<Rightarrow> LLParsingTable \<Rightarrow> 'ts TokenSource \<Rightarrow> 'ts LLParser \<Rightarrow> string
     \<Rightarrow> (error + (ParseResult \<times> 'ts LLParser)) option" where
  "parse g tbl tk p string =
     (case parseLoops g tbl tk p string of
        None \<Rightarrow> None
      | Some (Inl e) \<Rightarrow> Some (Inl e)
      | Some (Inr (p', token)) \<Rightarrow>
          (case stack p' of
             [] \<Rightarrow> Some (Inl TypeError)
           | s0 # _ \<Rightarrow>
               if \<not> isEOF s0 \<or> tok_value token \<noteq> EOF
               then Some (parseError (''stack is not empty: ''
                            @ joinComma (map getSymbol (stack p')) @ '', '' @ tok_value token))
               else Some (Inr (accept, p'))))"

section \<open>The generated tokenizer (\<^verbatim>\<open>tokenizer.template.ts\<close>)\<close>

text \<open>
  The fields of a \<^verbatim>\<open>Tokenizer\<close>, named as in the source without the leading
  underscore (\<^verbatim>\<open>_string\<close> is \<open>inputString\<close>), and the two module-level
  variables \<^verbatim>\<open>yytext\<close> and \<^verbatim>\<open>yyleng\<close> that the handlers read.
\<close>

record Tokenizer =
  inputString :: string
  states :: "string list"
  cursor :: int
  currentLine :: int
  currentColumn :: int
  currentLineBeginOffset :: int
  tokenStartOffset :: int
  tokenEndOffset :: int
  tokenStartLine :: int
  tokenEndLine :: int
  tokenStartColumn :: int
  tokenEndColumn :: int
  tokensQueue :: "string list"
  yytext :: string
  yyleng :: int

text \<open>
  What the generator writes into the template is a parameter. A regular expression is
  the function \<^verbatim>\<open>string.match(regexp)\<close> computes: \<open>None\<close> for
  \<^verbatim>\<open>null\<close>, otherwise \<^verbatim>\<open>matched[0]\<close>. A handler runs on the tokenizer
  (\<^verbatim>\<open>tokenHandler.call(this)\<close>), may change it, and returns \<^verbatim>\<open>null\<close>, a
  token-type name or an array of names. \<open>handlers\<close> is the lookup
  \<^verbatim>\<open>this[lexRule[1]]\<close>.
\<close>

type_synonym RegExp = "string \<Rightarrow> string option"

datatype HandlerResult = Null | Name string | Names "string list"

type_synonym Handler = "Tokenizer \<Rightarrow> HandlerResult \<times> Tokenizer"

record TokenizerConfig =
  tokensMap :: "string \<Rightarrow> nat option"
  lexRules :: "(RegExp \<times> string) list"
  lexRulesByConditions :: "string \<Rightarrow> nat list option"
  handlers :: "string \<Rightarrow> Handler option"

text \<open>
  \<^verbatim>\<open>new Token(Number(tokensMap[EOF]), '')\<close>: the location fields take their
  default 0. A token type \<open>None\<close> is a name the map does not hold.
\<close>

definition EOF_TOKEN :: "TokenizerConfig \<Rightarrow> nat option Token" where
  "EOF_TOKEN cfg =
     \<lparr>tok_type = tokensMap cfg EOF, tok_value = [],
      startOffset = 0, endOffset = 0, startLine = 0, endLine = 0,
      startColumn = 0, endColumn = 0\<rparr>"

definition initString :: "Tokenizer \<Rightarrow> string \<Rightarrow> Tokenizer" where
  "initString st tokenizingString =
     st\<lparr>inputString := tokenizingString,
        states := [''INITIAL''],
        cursor := 0,
        tokensQueue := [],
        currentLine := 1,
        currentColumn := 0,
        currentLineBeginOffset := 0,
        tokenStartOffset := 0,
        tokenEndOffset := 0,
        tokenStartLine := 1,
        tokenEndLine := 1,
        tokenStartColumn := 0,
        tokenEndColumn := 0\<rparr>"

definition hasMoreTokens :: "Tokenizer \<Rightarrow> bool" where
  "hasMoreTokens st = (cursor st \<le> int (length (inputString st)))"

definition isEOF_t :: "Tokenizer \<Rightarrow> bool" where
  "isEOF_t st = (cursor st = int (length (inputString st)))"

text \<open>
  \<^verbatim>\<open>this._states[this._states.length - 1]\<close>, which is \<^verbatim>\<open>undefined\<close>
  (\<open>None\<close>) on an empty array.
\<close>

definition getCurrentState :: "Tokenizer \<Rightarrow> string option" where
  "getCurrentState st = (if states st = [] then None else Some (last (states st)))"

definition pushState :: "string \<Rightarrow> Tokenizer \<Rightarrow> Tokenizer" where
  "pushState state st = st\<lparr>states := states st @ [state]\<rparr>"

definition popState :: "Tokenizer \<Rightarrow> string option \<times> Tokenizer" where
  "popState st =
     (if length (states st) > 1
      then (Some (last (states st)), st\<lparr>states := butlast (states st)\<rparr>)
      else (getCurrentState st, st))"

definition beginState :: "string \<Rightarrow> Tokenizer \<Rightarrow> Tokenizer" where
  "beginState state st = pushState state st"

text \<open>
  A call of one of the three state operations, and a sequence of such calls run from
  left to right.
\<close>

datatype StateOp = PushState string | PopState | Begin string

fun applyOp :: "Tokenizer \<Rightarrow> StateOp \<Rightarrow> Tokenizer" where
  "applyOp st (PushState state) = pushState state st"
| "applyOp st PopState = snd (popState st)"
| "applyOp st (Begin state) = beginState state st"

definition applyOps :: "StateOp list \<Rightarrow> Tokenizer \<Rightarrow> Tokenizer" where
  "applyOps ops st = foldl applyOp st ops"

text \<open>The \<^verbatim>\<open>index\<close> of every match of \<^verbatim>\<open>/\n/g\<close> in the matched text.\<close>

definition newlineIndices :: "string \<Rightarrow> nat list" where
  "newlineIndices matched = filter (\<lambda>i. matched ! i = CHR 0x0A) [0..<length matched]"

definition captureLocation :: "string \<Rightarrow> Tokenizer \<Rightarrow> Tokenizer" where
  "captureLocation matched st =
     (let st1 = st\<lparr>tokenStartOffset := cursor st\<rparr>;
          st2 = st1\<lparr>tokenStartLine := currentLine st1,
                    tokenStartColumn := tokenStartOffset st1 - currentLineBeginOffset st1\<rparr>;
          st3 = foldl (\<lambda>s index. s\<lparr>currentLine := currentLine s + 1,
                                     currentLineBeginOffset :=
                                       tokenStartOffset s + int index + 1\<rparr>)
                      st2 (newlineIndices matched);
          st4 = st3\<lparr>tokenEndOffset := cursor st3 + int (length matched)\<rparr>;
          st5 = st4\<lparr>tokenEndLine := currentLine st4\<rparr>;
          column = tokenEndOffset st5 - currentLineBeginOffset st5
      in st5\<lparr>currentColumn := column, tokenEndColumn := column\<rparr>)"

text \<open>
  \<^verbatim>\<open>_toToken(tokenType, yytext = '')\<close>: the token takes its location from the
  fields of the tokenizer.
\<close>

definition toToken :: "TokenizerConfig \<Rightarrow> Tokenizer \<Rightarrow> string \<Rightarrow> string \<Rightarrow> nat option Token" where
  "toToken cfg st tokenType text =
     \<lparr>tok_type = tokensMap cfg tokenType, tok_value = text,
      startOffset = tokenStartOffset st, endOffset = tokenEndOffset st,
      startLine = tokenStartLine st, endLine = tokenEndLine st,
      startColumn = tokenStartColumn st, endColumn = tokenEndColumn st\<rparr>"

definition match :: "string \<Rightarrow> RegExp \<Rightarrow> Tokenizer \<Rightarrow> string option \<times> Tokenizer" where
  "match string regexp st =
     (case regexp string of
        None \<Rightarrow> (None, st)
      | Some m \<Rightarrow>
          (let st1 = captureLocation m st
           in (Some m, st1\<lparr>cursor := cursor st1 + int (length m)\<rparr>)))"

text \<open>
  \<^verbatim>\<open>this._string.slice(this._cursor)\<close>; a negative start counts from the end.
\<close>

definition slice :: "string \<Rightarrow> int \<Rightarrow> string" where
  "slice s start =
     (if start < 0 then drop (nat (int (length s) + start)) s else drop (nat start) s)"

text \<open>
  The \<^verbatim>\<open>for\<close> loop of \<^verbatim>\<open>getNextToken\<close> (lines 264 to 278) up to its first
  match: the result is the rule that matched, the matched text and the tokenizer after
  \<^verbatim>\<open>_match\<close>, or \<open>None\<close> when the loop ends without a match. A rule index
  outside \<^verbatim>\<open>lexRules\<close> gives \<^verbatim>\<open>undefined\<close>, whose \<^verbatim>\<open>[0]\<close> raises
  TypeError.
\<close>

fun scanRules ::
  "TokenizerConfig \<Rightarrow> string \<Rightarrow> nat list \<Rightarrow> Tokenizer
     \<Rightarrow> error + ((RegExp \<times> string) \<times> string \<times> Tokenizer) option" where
  "scanRules cfg string [] st = Inr None"
| "scanRules cfg string (lexRuleIndex # rest) st =
     (if lexRuleIndex < length (lexRules cfg) then
        (let lexRule = lexRules cfg ! lexRuleIndex
         in case match string (fst lexRule) st of
              (None, st1) \<Rightarrow> scanRules cfg string rest st1
            | (Some matched, st1) \<Rightarrow>
                Inr (Some (lexRule, matched,
                           if string = [] \<and> matched = []
                           then st1\<lparr>cursor := cursor st1 + 1\<rparr> else st1)))
      else Inl TypeError)"

text \<open>
  Lines 280 to 288: \<^verbatim>\<open>yytext\<close> and \<^verbatim>\<open>yyleng\<close> are set and the handler of
  the rule is called; calling a missing handler raises TypeError.
\<close>

definition callHandler ::
  "TokenizerConfig \<Rightarrow> RegExp \<times> string \<Rightarrow> string \<Rightarrow> Tokenizer
     \<Rightarrow> error + (HandlerResult \<times> Tokenizer)" where
  "callHandler cfg lexRule matched st =
     (let st1 = st\<lparr>yytext := matched, yyleng := int (length matched)\<rparr>
      in case handlers cfg (snd lexRule) of
           None \<Rightarrow> Inl TypeError
         | Some tokenHandler \<Rightarrow> Inr (tokenHandler st1))"

text \<open>\<^verbatim>\<open>!tokenType\<close>: \<^verbatim>\<open>null\<close> and the empty string; an array never.\<close>

fun falsy :: "HandlerResult \<Rightarrow> bool" where
  "falsy Null = True"
| "falsy (Name n) = (n = [])"
| "falsy (Names ns) = False"

text \<open>
  Lines 299 to 308. Of an empty array, \<^verbatim>\<open>tokenType[0]\<close> is \<^verbatim>\<open>undefined\<close>,
  which \<^verbatim>\<open>tokensMap[tokenType]\<close> reads as the key \<^verbatim>\<open>"undefined"\<close>.
\<close>

definition emitToken ::
  "TokenizerConfig \<Rightarrow> HandlerResult \<Rightarrow> string \<Rightarrow> Tokenizer \<Rightarrow> nat option Token \<times> Tokenizer" where
  "emitToken cfg tokenType matched st =
     (case tokenType of
        Names ns \<Rightarrow>
          (let tokensToQueue = drop 1 ns;
               first = (case ns of [] \<Rightarrow> ''undefined'' | n # _ \<Rightarrow> n);
               st1 = (if length tokensToQueue > 0
                      then st\<lparr>tokensQueue := tokensToQueue @ tokensQueue st\<rparr> else st)
           in (toToken cfg st1 first matched, st1))
      | Name n \<Rightarrow> (toToken cfg st n matched, st)
      | Null \<Rightarrow> (toToken cfg st ''null'' matched, st))"

text \<open>
  \<^verbatim>\<open>lexRulesByConditions[this.getCurrentState()]\<close>; the state
  \<^verbatim>\<open>undefined\<close> is read as the key \<^verbatim>\<open>"undefined"\<close>.
\<close>

definition rulesForCurrentState :: "TokenizerConfig \<Rightarrow> Tokenizer \<Rightarrow> nat list option" where
  "rulesForCurrentState cfg st =
     lexRulesByConditions cfg
       (case getCurrentState st of None \<Rightarrow> ''undefined'' | Some state \<Rightarrow> state)"

text \<open>
  \<^verbatim>\<open>getNextToken\<close>. \<open>None\<close> is a call that never returns (a handler that skips
  an empty match before the end of the text makes the call recur on the same state).
\<close>

partial_function (option) getNextToken ::
  "TokenizerConfig \<Rightarrow> Tokenizer \<Rightarrow> (error + (nat option Token \<times> Tokenizer)) option" where
  "getNextToken cfg st =
     (if length (tokensQueue st) > 0 then
        Some (Inr (toToken cfg st (hd (tokensQueue st)) [],
                   st\<lparr>tokensQueue := tl (tokensQueue st)\<rparr>))
      else if \<not> hasMoreTokens st then Some (Inr (EOF_TOKEN cfg, st))
      else
        (case rulesForCurrentState cfg st of
           None \<Rightarrow> Some (Inl TypeError)
         | Some lexRulesForState \<Rightarrow>
             (case scanRules cfg (slice (inputString st) (cursor st)) lexRulesForState st of
                Inl e \<Rightarrow> Some (Inl e)
              | Inr (Some (lexRule, matched, st1)) \<Rightarrow>
                  (case callHandler cfg lexRule matched st1 of
                     Inl e \<Rightarrow> Some (Inl e)
                   | Inr (tokenType, st2) \<Rightarrow>
                       if falsy tokenType then getNextToken cfg st2
                       else Some (Inr (emitToken cfg tokenType matched st2)))
              | Inr None \<Rightarrow>
                  if isEOF_t st
                  then Some (Inr (EOF_TOKEN cfg, st\<lparr>cursor := cursor st + 1\<rparr>))
                  else Some (Inl (UnexpectedToken
                         (case slice (inputString st) (cursor st) of
                            [] \<Rightarrow> None | c # _ \<Rightarrow> Some c)
                         (currentLine st) (currentColumn st))))))"


section \<open>The emission layer (\<^verbatim>\<open>typescript-parser-generator-trait.js\<close>)\<close>

text \<open>
  \<^verbatim>\<open>_dictKey\<close> and \<^verbatim>\<open>_dictValue\<close> return a string or a number. The
  JavaScript built-ins they call are parameters over the type \<open>'v\<close> of the values
  and the type \<open>'n\<close> of the numbers: the conversion to a string of a template
  literal, \<^verbatim>\<open>Number\<close>, \<^verbatim>\<open>Array.isArray\<close> and \<^verbatim>\<open>join\<close>.
\<close>

datatype 'n Rendered = Str string | Num 'n

record ('v, 'n) Builtins =
  toStr :: "'v \<Rightarrow> string"
  toNumber :: "'v \<Rightarrow> 'n"
  isArray :: "'v \<Rightarrow> bool"
  joinWith :: "'v \<Rightarrow> string \<Rightarrow> string"

definition dictKey :: "('v, 'n) Builtins \<Rightarrow> 'v \<Rightarrow> string \<Rightarrow> error + 'n Rendered" where
  "dictKey js key keyType =
     (if keyType = ''string'' then Inr (Str ([CHR 0x22] @ toStr js key @ [CHR 0x22]))
      else if keyType = ''number'' then Inr (Num (toNumber js key))
      else Inl (Error (''_dictKey: Incorrect type '' @ keyType)))"

definition dictValue :: "('v, 'n) Builtins \<Rightarrow> 'v \<Rightarrow> string \<Rightarrow> error + 'n Rendered" where
  "dictValue js v valueType =
     (if isArray js v then Inr (Str (''new int[] { '' @ joinWith js v '', '' @ '' }''))
      else if valueType = ''string'' then Inr (Str ([CHR 0x22] @ toStr js v @ [CHR 0x22]))
      else if valueType = ''number'' then Inr (Num (toNumber js v))
      else Inl (Error (''_dictValue: Incorrect value '' @ valueType)))"

section \<open>Example instances\<close>

text \<open>
  The grammar \<open>S \<rightarrow> a S b | \<epsilon>\<close> with its table
  \<open>{S: {a: 1, b: 2, $: 2}}\<close>.
\<close>

definition exampleGrammar :: Grammar where
  "exampleGrammar =
     \<lparr>getStartSymbol = ''S'',
      getProduction = (\<lambda>n.
        if n = 1 then Some (Production [GrammarSymbol ''a'', GrammarSymbol ''S'', GrammarSymbol ''b''])
        else if n = 2 then Some (Production [GrammarSymbol EPSILON])
        else None),
      isTokenSymbol = (\<lambda>s. getSymbol s = ''a'' \<or> getSymbol s = ''b'')\<rparr>"

definition exampleTable :: LLParsingTable where
  "exampleTable =
     (\<lambda>s. if s = ''S''
          then Some (\<lambda>t. if t = ''a'' then Some 1
                         else if t = ''b'' then Some 2
                         else if t = EOF then Some 2
                         else None)
          else None)"

text \<open>The same table with the number 0 stored in the cell \<open>(S, c)\<close>.\<close>

definition zeroCellTable :: LLParsingTable where
  "zeroCellTable =
     (\<lambda>s. if s = ''S''
          then Some (\<lambda>t. if t = ''a'' then Some 1
                         else if t = ''b'' then Some 2
                         else if t = EOF then Some 2
                         else if t = ''c'' then Some 0
                         else None)
          else None)"

text \<open>
  The grammar \<open>S \<rightarrow> S\<close>, whose only production never shrinks the stack, with
  the table \<open>{S: {$: 1}}\<close>.
\<close>

definition loopGrammar :: Grammar where
  "loopGrammar =
     \<lparr>getStartSymbol = ''S'',
      getProduction = (\<lambda>n. if n = 1 then Some (Production [GrammarSymbol ''S'']) else None),
      isTokenSymbol = (\<lambda>s. False)\<rparr>"

definition loopTable :: LLParsingTable where
  "loopTable = (\<lambda>s. if s = ''S'' then Some (\<lambda>t. if t = EOF then Some 1 else None) else None)"



definition mkToken :: "'ty \<Rightarrow> string \<Rightarrow> 'ty Token" where
  "mkToken ty v =
     \<lparr>tok_type = ty, tok_value = v, startOffset = 0, endOffset = 0, startLine = 0,
      endLine = 0, startColumn = 0, endColumn = 0\<rparr>"

text \<open>
  Modelled from the spec: the token source of the engine (the module
  \<^verbatim>\<open>tokenizer\<close> it imports is not among the sources), for a text in which every
  character is a token of its own name. The state is the text and the cursor; at the
  end of the text the token is the end-of-input token, whose type and value are
  \<open>EOF\<close>, and the cursor moves one position past the end exactly once;
  \<^verbatim>\<open>hasMoreTokens\<close> holds while the cursor is at most the length of the text.
\<close>

definition charTokenizer :: "(string \<times> nat) TokenSource" where
  "charTokenizer =
     \<lparr>ts_initString = (\<lambda>s. (s, 0)),
      ts_getNextToken = (\<lambda>(s, c).
        if c < length s then Inr (mkToken [s ! c] [s ! c], (s, c + 1))
        else Inr (mkToken EOF EOF, (s, if c = length s then c + 1 else c))),
      ts_hasMoreTokens = (\<lambda>(s, c). c \<le> length s)\<rparr>"


definition newParser :: "(string \<times> nat) LLParser" where
  "newParser = \<lparr>stack = [], productionNumbers = [], tokenizer = ([], 0)\<rparr>"

text \<open>
  A tokenizer configuration: the rules \<^verbatim>\<open>/^{/\<close>, \<^verbatim>\<open>/^a/\<close> and
  \<^verbatim>\<open>/^ab/\<close> in this order, the first returning two names.
\<close>

definition literal :: "string \<Rightarrow> RegExp" where
  "literal p s = (if take (length p) s = p then Some p else None)"

definition exampleConfig :: TokenizerConfig where
  "exampleConfig =
     \<lparr>tokensMap = (\<lambda>n. if n = ''A'' then Some 5 else if n = ''AB'' then Some 6
                       else if n = ''LBRACE'' then Some 7 else if n = ''STRING'' then Some 8
                       else if n = EOF then Some 9 else None),
      lexRules = [(literal ''{'', ''_lexRule1''), (literal ''a'', ''_lexRule2''),
                  (literal ''ab'', ''_lexRule3'')],
      lexRulesByConditions = (\<lambda>c. if c = ''INITIAL'' then Some [0, 1, 2] else None),
      handlers = (\<lambda>h. if h = ''_lexRule1''
                        then Some (\<lambda>st. (Names [''LBRACE'', ''STRING''], st))
                      else if h = ''_lexRule2'' then Some (\<lambda>st. (Name ''A'', st))
                      else if h = ''_lexRule3'' then Some (\<lambda>st. (Name ''AB'', st))
                      else None)\<rparr>"

definition newTokenizer :: Tokenizer where
  "newTokenizer =
     \<lparr>inputString = [], states = [], cursor = 0, currentLine = 0, currentColumn = 0,
      currentLineBeginOffset = 0, tokenStartOffset = 0, tokenEndOffset = 0,
      tokenStartLine = 0, tokenEndLine = 0, tokenStartColumn = 0, tokenEndColumn = 0,
      tokensQueue = [], yytext = [], yyleng = 0\<rparr>"

text \<open>
  Built-ins over strings, none of them an array; a number is kept as the text that
  denotes it.
\<close>

definition stringBuiltins :: "(string, string) Builtins" where
  "stringBuiltins =
     \<lparr>toStr = (\<lambda>v. v), toNumber = (\<lambda>v. v), isArray = (\<lambda>v. False),
      joinWith = (\<lambda>v sep. v)\<rparr>"

section \<open>Properties of the LL(1) engine\<close>

subsection \<open>Auxiliary facts\<close>





lemmas ll_defs = parseLoops_def parseInit_def 
     mainLoop.simps eofLoop.simps loopBody_def doDerivation_def getDerivedRHS_def mkToken_def
     isEpsilon_def EPSILON_def EOF_def

lemma loop_step:
  "doDerivation loopGrammar loopTable (p\<lparr>stack := [GrammarSymbol EOF]\<rparr>)
       (GrammarSymbol ''S'') (mkToken EOF EOF)
     = Inr (p\<lparr>stack := [GrammarSymbol EOF, GrammarSymbol ''S''],
              productionNumbers := productionNumbers p @ [1]\<rparr>)"
  by (simp add: doDerivation_def getDerivedRHS_def loopGrammar_def loopTable_def mkToken_def
      isEpsilon_def EPSILON_def EOF_def)

lemma mainLoop_diverges_aux:
  fixes s :: "(string \<times> nat) LLParser \<times> string Token"
  assumes "mainLoop g tbl tk s = Some r"
  shows "\<not> (g = loopGrammar \<and> tbl = loopTable \<and> tk = charTokenizer
            \<and> stack (fst s) = [GrammarSymbol EOF, GrammarSymbol ''S'']
            \<and> snd s = mkToken EOF EOF \<and> tokenizer (fst s) = ([], 1))"
proof (rule mainLoop.raw_induct
    [where P = "\<lambda>g tbl tk s r. \<not> (g = loopGrammar \<and> tbl = loopTable \<and> tk = charTokenizer
            \<and> stack (fst s) = [GrammarSymbol EOF, GrammarSymbol ''S'']
            \<and> snd s = mkToken EOF EOF \<and> tokenizer (fst s) = ([], 1))", OF _ assms])
  fix f :: "Grammar \<Rightarrow> LLParsingTable \<Rightarrow> (string \<times> nat) TokenSource
              \<Rightarrow> (string \<times> nat) LLParser \<times> string Token
              \<Rightarrow> (error + ((string \<times> nat) LLParser \<times> string Token)) option"
  fix g tbl tk s r
  assume IH: "\<And>g tbl tk s r. f g tbl tk s = Some r \<Longrightarrow>
            \<not> (g = loopGrammar \<and> tbl = loopTable \<and> tk = charTokenizer
            \<and> stack (fst s) = [GrammarSymbol EOF, GrammarSymbol ''S'']
            \<and> snd s = mkToken EOF EOF \<and> tokenizer (fst s) = ([], 1))"
    and body: "(case loopBody g tbl tk s of Inl e \<Rightarrow> Some (Inl e)
        | Inr s' \<Rightarrow>
            if ts_hasMoreTokens tk (tokenizer (fst s')) \<or>
               1 < length (stack (fst s'))
            then f g tbl tk s' else Some (Inr s')) = Some r"
  show "\<not> (g = loopGrammar \<and> tbl = loopTable \<and> tk = charTokenizer
            \<and> stack (fst s) = [GrammarSymbol EOF, GrammarSymbol ''S'']
            \<and> snd s = mkToken EOF EOF \<and> tokenizer (fst s) = ([], 1))"
  proof
    assume inv: "g = loopGrammar \<and> tbl = loopTable \<and> tk = charTokenizer
            \<and> stack (fst s) = [GrammarSymbol EOF, GrammarSymbol ''S'']
            \<and> snd s = mkToken EOF EOF \<and> tokenizer (fst s) = ([], 1)"
    obtain p token where s: "s = (p, token)" by (cases s)
    let ?p' = "p\<lparr>stack := [GrammarSymbol EOF, GrammarSymbol ''S''],
                  productionNumbers := productionNumbers p @ [1]\<rparr>"
    have step: "loopBody g tbl tk s = Inr (?p', token)"
      using inv s loop_step [of p]
      by (simp add: loopBody_def loopGrammar_def)
    have "\<not> ts_hasMoreTokens tk (tokenizer ?p')"
      using inv s by (simp add: charTokenizer_def)
    with body step have "f g tbl tk (?p', token) = Some r"
      by simp
    from IH [OF this] inv s show False by simp
  qed
qed

lemma mainLoop_exit:
  fixes s :: "'a LLParser \<times> string Token"
  assumes "mainLoop g tbl tk s = Some r"
  shows "\<forall>s'. r = Inr s' \<longrightarrow>
           \<not> ts_hasMoreTokens tk (tokenizer (fst s')) \<and> length (stack (fst s')) \<le> 1"
proof (rule mainLoop.raw_induct
    [where P = "\<lambda>g tbl tk s r. \<forall>s'. r = Inr s' \<longrightarrow>
           \<not> ts_hasMoreTokens tk (tokenizer (fst s')) \<and> length (stack (fst s')) \<le> 1",
     OF _ assms])
  fix f :: "Grammar \<Rightarrow> LLParsingTable \<Rightarrow> 'a TokenSource \<Rightarrow> 'a LLParser \<times> string Token
              \<Rightarrow> (error + ('a LLParser \<times> string Token)) option"
  fix g tbl tk s r
  assume IH: "\<And>g tbl tk s r. f g tbl tk s = Some r \<Longrightarrow>
           \<forall>s'. r = Inr s' \<longrightarrow>
           \<not> ts_hasMoreTokens tk (tokenizer (fst s')) \<and> length (stack (fst s')) \<le> 1"
    and body: "(case loopBody g tbl tk s of Inl e \<Rightarrow> Some (Inl e)
        | Inr s' \<Rightarrow>
            if ts_hasMoreTokens tk (tokenizer (fst s')) \<or>
               1 < length (stack (fst s'))
            then f g tbl tk s' else Some (Inr s')) = Some r"
  show "\<forall>s'. r = Inr s' \<longrightarrow>
           \<not> ts_hasMoreTokens tk (tokenizer (fst s')) \<and> length (stack (fst s')) \<le> 1"
  proof (cases "loopBody g tbl tk s")
    case (Inl e)
    with body show ?thesis by auto
  next
    case (Inr s1)
    show ?thesis
    proof (cases "ts_hasMoreTokens tk (tokenizer (fst s1)) \<or> 1 < length (stack (fst s1))")
      case True
      with body Inr have "f g tbl tk s1 = Some r" by simp
      from IH [OF this] show ?thesis .
    next
      case False
      with body Inr have "r = Inr s1" by simp
      with False show ?thesis by auto
    qed
  qed
qed

lemma eofLoop_inert:
  assumes "length (stack (fst s)) \<le> 1"
  shows "eofLoop g tbl s =
           (if stack (fst s) = [] then Some (Inl TypeError) else Some (Inr s))"
proof (cases s)
  case (Pair p token)
  with assms show ?thesis
    by (subst eofLoop.simps) (cases "stack p", auto)
qed

lemma eofLoop_after_mainLoop:
  assumes "mainLoop g tbl tk s = Some (Inr s')"
  shows "length (stack (fst s')) \<le> 1
       \<and> eofLoop g tbl s' =
           (if stack (fst s') = [] then Some (Inl TypeError) else Some (Inr s'))"
proof -
  from mainLoop_exit [OF assms] have l: "length (stack (fst s')) \<le> 1" by simp
  from l eofLoop_inert [OF l] show ?thesis by simp
qed

lemma mainLoop_loopGrammar:
  "mainLoop loopGrammar loopTable charTokenizer
     (\<lparr>stack = [GrammarSymbol EOF, GrammarSymbol ''S''], productionNumbers = [],
       tokenizer = ([], Suc 0)\<rparr>, mkToken EOF EOF) = None"
  using mainLoop_diverges_aux [of loopGrammar loopTable charTokenizer
      "(\<lparr>stack = [GrammarSymbol EOF, GrammarSymbol ''S''], productionNumbers = [],
         tokenizer = ([], Suc 0)\<rparr>, mkToken EOF EOF)"]
  by (cases "mainLoop loopGrammar loopTable charTokenizer
     (\<lparr>stack = [GrammarSymbol EOF, GrammarSymbol ''S''], productionNumbers = [],
       tokenizer = ([], Suc 0)\<rparr>, mkToken EOF EOF)") simp_all

subsection \<open>Claims\<close>






text \<open>
  Claim C4, as the code has it. Nothing bounds the derivations of the
  \<^verbatim>\<open>do ... while\<close> loop of \<^verbatim>\<open>parse\<close>. For the grammar \<open>S \<rightarrow> S\<close> and the
  table \<open>{S: {$: 1}}\<close>, the derivation of \<open>S\<close> against the end-of-input token
  succeeds and puts \<open>S\<close> back on the stack, the \<^verbatim>\<open>do ... while\<close> loop entered on
  the empty text never ends, and so \<^verbatim>\<open>parse\<close> of the empty text never returns.
  The loop at the end of input is not where this happens: whenever the
  \<^verbatim>\<open>do ... while\<close> loop ends, at most one symbol is on the stack, and the loop at
  the end of input then derives nothing (it returns the state it is given, or raises
  TypeError on the empty stack).
\<close>

theorem parse_diverges:
  "doDerivation loopGrammar loopTable (p\<lparr>stack := [GrammarSymbol EOF]\<rparr>)
       (GrammarSymbol ''S'') (mkToken EOF EOF)
     = Inr (p\<lparr>stack := [GrammarSymbol EOF, GrammarSymbol ''S''],
              productionNumbers := productionNumbers p @ [1]\<rparr>)
   \<and> mainLoop loopGrammar loopTable charTokenizer
       (\<lparr>stack = [GrammarSymbol EOF, GrammarSymbol (getStartSymbol loopGrammar)],
         productionNumbers = [], tokenizer = ([], Suc 0)\<rparr>, mkToken EOF EOF) = None
   \<and> parse loopGrammar loopTable charTokenizer p [] = None
   \<and> (\<forall>g tbl (tk :: 'a TokenSource) s s'. mainLoop g tbl tk s = Some (Inr s') \<longrightarrow>
         length (stack (fst s')) \<le> 1
         \<and> eofLoop g tbl s' =
             (if stack (fst s') = [] then Some (Inl TypeError) else Some (Inr s')))"
proof (intro conjI)
  show "doDerivation loopGrammar loopTable (p\<lparr>stack := [GrammarSymbol EOF]\<rparr>)
       (GrammarSymbol ''S'') (mkToken EOF EOF)
     = Inr (p\<lparr>stack := [GrammarSymbol EOF, GrammarSymbol ''S''],
              productionNumbers := productionNumbers p @ [1]\<rparr>)"
    by (rule loop_step)
next
  have "getStartSymbol loopGrammar = ''S''" by (simp add: loopGrammar_def)
  with mainLoop_loopGrammar
  show m: "mainLoop loopGrammar loopTable charTokenizer
       (\<lparr>stack = [GrammarSymbol EOF, GrammarSymbol (getStartSymbol loopGrammar)],
         productionNumbers = [], tokenizer = ([], Suc 0)\<rparr>, mkToken EOF EOF) = None"
    by simp
  then have "parseLoops loopGrammar loopTable charTokenizer p [] = None"
    by (cases p) (simp add: parseLoops_def parseInit_def charTokenizer_def)
  then show "parse loopGrammar loopTable charTokenizer p [] = None"
    by (simp add: parse_def)
next
  show "\<forall>g tbl (tk :: 'a TokenSource) s s'. mainLoop g tbl tk s = Some (Inr s') \<longrightarrow>
         length (stack (fst s')) \<le> 1
         \<and> eofLoop g tbl s' =
             (if stack (fst s') = [] then Some (Inl TypeError) else Some (Inr s'))"
    using eofLoop_after_mainLoop by blast
qed

theorem parse_diverges_witness:
  "parse loopGrammar loopTable charTokenizer newParser [] = None
   \<and> mainLoop exampleGrammar exampleTable charTokenizer
       (\<lparr>stack = [GrammarSymbol EOF, GrammarSymbol ''S''], productionNumbers = [],
         tokenizer = ([] :: string, Suc 0)\<rparr>, mkToken EOF EOF)
       = Some (Inr (\<lparr>stack = [GrammarSymbol EOF], productionNumbers = [2],
                      tokenizer = ([] :: string, Suc 0)\<rparr>, mkToken EOF EOF))
   \<and> eofLoop exampleGrammar exampleTable
       (\<lparr>stack = [GrammarSymbol EOF], productionNumbers = [2],
         tokenizer = ([] :: string, Suc 0)\<rparr>, mkToken EOF EOF)
       = Some (Inr (\<lparr>stack = [GrammarSymbol EOF], productionNumbers = [2],
                      tokenizer = ([] :: string, Suc 0)\<rparr>, mkToken EOF EOF))"
proof -
  let ?s = "(\<lparr>stack = [GrammarSymbol EOF, GrammarSymbol ''S''], productionNumbers = [],
         tokenizer = ([]::string, Suc 0)\<rparr>, mkToken EOF EOF)"
  let ?s' = "(\<lparr>stack = [GrammarSymbol EOF], productionNumbers = [2],
                      tokenizer = ([]::string, Suc 0)\<rparr>, mkToken EOF EOF)"
  have m: "mainLoop exampleGrammar exampleTable charTokenizer ?s = Some (Inr ?s')"
    by (simp add: ll_defs exampleGrammar_def exampleTable_def charTokenizer_def)
  note t = parse_diverges [where p = newParser and 'a = "string \<times> nat"]
  from t have a: "parse loopGrammar loopTable charTokenizer newParser [] = None"
    by blast
  from t m have "eofLoop exampleGrammar exampleTable ?s' =
      (if stack (fst ?s') = [] then Some (Inl TypeError) else Some (Inr ?s'))"
    by blast
  then have e: "eofLoop exampleGrammar exampleTable ?s' = Some (Inr ?s')"
    by simp
  from a m e show ?thesis by blast
qed

text \<open>
  Claim C4 as stated places the missing guard, and the run that never ends, in the
  loop at the end of input. On the grammar \<open>S \<rightarrow> S\<close> it is the \<^verbatim>\<open>do ... while\<close>
  loop that never ends, and there is no state that the \<^verbatim>\<open>do ... while\<close> loop
  returns on which the loop at the end of input fails to return.
\<close>

theorem end_of_input_loop_counterexample:
  "mainLoop loopGrammar loopTable charTokenizer
     (\<lparr>stack = [GrammarSymbol EOF, GrammarSymbol ''S''], productionNumbers = [],
       tokenizer = ([], Suc 0)\<rparr>, mkToken EOF EOF) = None
   \<and> \<not> (\<exists>g tbl (tk :: 'a TokenSource) s s'.
          mainLoop g tbl tk s = Some (Inr s') \<and> eofLoop g tbl s' = None)"
proof
  show "mainLoop loopGrammar loopTable charTokenizer
     (\<lparr>stack = [GrammarSymbol EOF, GrammarSymbol ''S''], productionNumbers = [],
       tokenizer = ([], Suc 0)\<rparr>, mkToken EOF EOF) = None"
    by (rule mainLoop_loopGrammar)
next
  show "\<not> (\<exists>g tbl (tk :: 'a TokenSource) s s'.
          mainLoop g tbl tk s = Some (Inr s') \<and> eofLoop g tbl s' = None)"
  proof
    assume "\<exists>g tbl (tk :: 'a TokenSource) s s'.
          mainLoop g tbl tk s = Some (Inr s') \<and> eofLoop g tbl s' = None"
    then obtain g tbl and tk :: "'a TokenSource" and s s'
      where m: "mainLoop g tbl tk s = Some (Inr s')" and e: "eofLoop g tbl s' = None"
      by blast
    from eofLoop_after_mainLoop [OF m] e show False
      by (simp split: if_splits)
  qed
qed

text \<open>
  Claim C5, as the code has it. With a non-terminal on top (its row is in the table)
  and any current token: when the cell of the token's type is absent, the lookup
  raises, and the error is the unexpected-end-of-input one exactly when the value of
  the token is \<open>EOF\<close>, otherwise the unexpected-token one naming the token's value.
  When the cell holds a production number other than 0, the lookup raises neither:
  the result is the reversed right-hand side of that production (or the TypeError of
  a production the grammar does not have).
\<close>

theorem absent_cell_raises:
  assumes "tbl (getSymbol topSym) = Some row"
  shows "(row (tok_type token) = None \<longrightarrow>
            getDerivedRHS g tbl p topSym token =
              Inl (Error (if tok_value token = EOF
                          then ''Parse error: Unexpected end of input.''
                          else ''Parse error: Unexpected token: '' @ tok_value token @ ''.''))
          \<and> (getDerivedRHS g tbl p topSym token =
                Inl (Error ''Parse error: Unexpected end of input.'')
              \<longleftrightarrow> tok_value token = EOF))
       \<and> (\<forall>n. row (tok_type token) = Some n \<and> n \<noteq> 0 \<longrightarrow>
            getDerivedRHS g tbl p topSym token =
              (case getProduction g n of
                 None \<Rightarrow> Inl TypeError
               | Some nextProduction \<Rightarrow>
                   Inr (rev (getRHS nextProduction),
                        p\<lparr>productionNumbers := productionNumbers p @ [n]\<rparr>))
          \<and> (\<forall>message. getDerivedRHS g tbl p topSym token \<noteq> Inl (Error message)))"
  using assms
  by (auto simp add: getDerivedRHS_def unexpectedToken_def unexpectedEndOfInput_def
        parseError_def split: option.splits)

theorem absent_cell_raises_witness:
  "getDerivedRHS exampleGrammar exampleTable newParser (GrammarSymbol ''S'') (mkToken ''c'' ''c'')
     = Inl (Error ''Parse error: Unexpected token: c.'')
   \<and> getDerivedRHS exampleGrammar exampleTable newParser (GrammarSymbol ''S'') (mkToken ''a'' ''a'')
     = Inr ([GrammarSymbol ''b'', GrammarSymbol ''S'', GrammarSymbol ''a''],
            newParser\<lparr>productionNumbers := [1]\<rparr>)"
proof -
  let ?row = "\<lambda>t. if t = ''a'' then Some (1::nat) else if t = ''b'' then Some 2
                   else if t = EOF then Some 2 else None"
  have row: "exampleTable (getSymbol (GrammarSymbol ''S'')) = Some ?row"
    by (simp add: exampleTable_def)
  have c: "?row (tok_type (mkToken ''c'' ''c'')) = None"
    by (simp add: mkToken_def EOF_def)
  have a: "?row (tok_type (mkToken ''a'' ''a'')) = Some 1 \<and> (1::nat) \<noteq> 0"
    by (simp add: mkToken_def)
  from absent_cell_raises [of exampleTable "GrammarSymbol ''S''" ?row "mkToken ''c'' ''c''"
      exampleGrammar newParser, OF row] c
  have 1: "getDerivedRHS exampleGrammar exampleTable newParser (GrammarSymbol ''S'') (mkToken ''c'' ''c'')
     = Inl (Error ''Parse error: Unexpected token: c.'')"
    by (simp add: mkToken_def EOF_def)
  from absent_cell_raises [of exampleTable "GrammarSymbol ''S''" ?row "mkToken ''a'' ''a''"
      exampleGrammar newParser, OF row] a
  have 2: "getDerivedRHS exampleGrammar exampleTable newParser (GrammarSymbol ''S'') (mkToken ''a'' ''a'')
     = Inr ([GrammarSymbol ''b'', GrammarSymbol ''S'', GrammarSymbol ''a''],
            newParser\<lparr>productionNumbers := [1]\<rparr>)"
    by (simp add: exampleGrammar_def newParser_def)
  from 1 2 show ?thesis by simp
qed

text \<open>
  Claim C5 as stated says that a present cell never raises at the lookup. The cell
  \<open>(S, c)\<close> of this table is present and holds 0, and the lookup raises the
  unexpected-token error.
\<close>

theorem present_cell_never_raises_counterexample:
  "(case zeroCellTable ''S'' of None \<Rightarrow> False
    | Some row \<Rightarrow> row (tok_type (mkToken ''c'' ''c'')) = Some 0)
   \<and> getDerivedRHS exampleGrammar zeroCellTable newParser (GrammarSymbol ''S'') (mkToken ''c'' ''c'')
       = Inl (Error ''Parse error: Unexpected token: c.'')"
  by (simp add: zeroCellTable_def getDerivedRHS_def mkToken_def EOF_def unexpectedToken_def
        parseError_def)

text \<open>
  Claim C9. When the cell of a non-terminal and a token type is present and holds 0,
  the lookup raises the error it raises for an absent cell: the result is the same as
  on the table without the cell. No lookup ever records the production number 0.
\<close>

theorem zero_cell_like_absent:
  "(tbl (getSymbol topSym) = Some row \<and> row (tok_type token) = Some 0 \<longrightarrow>
      getDerivedRHS g tbl p topSym token =
        Inl (Error (if tok_value token = EOF
                    then ''Parse error: Unexpected end of input.''
                    else ''Parse error: Unexpected token: '' @ tok_value token @ ''.''))
      \<and> getDerivedRHS g tbl p topSym token =
          getDerivedRHS g (tbl(getSymbol topSym := Some (row(tok_type token := None))))
            p topSym token)
   \<and> (\<forall>rhs q. getDerivedRHS g tbl p topSym token = Inr (rhs, q) \<longrightarrow>
          productionNumbers q \<noteq> productionNumbers p @ [0])"
  by (auto simp add: getDerivedRHS_def unexpectedToken_def unexpectedEndOfInput_def
        parseError_def split: option.splits if_splits)

theorem zero_cell_like_absent_witness:
  "zeroCellTable (getSymbol (GrammarSymbol ''S'')) =
     Some (\<lambda>t. if t = ''a'' then Some 1 else if t = ''b'' then Some 2
               else if t = EOF then Some 2 else if t = ''c'' then Some 0 else None)
   \<and> getDerivedRHS exampleGrammar zeroCellTable newParser (GrammarSymbol ''S'') (mkToken ''c'' ''c'')
     = Inl (Error ''Parse error: Unexpected token: c.'')"
proof -
  let ?row = "\<lambda>t. if t = ''a'' then Some (1::nat) else if t = ''b'' then Some 2
                   else if t = EOF then Some 2 else if t = ''c'' then Some 0 else None"
  have row: "zeroCellTable (getSymbol (GrammarSymbol ''S'')) = Some ?row"
    by (simp add: zeroCellTable_def)
  have cell: "?row (tok_type (mkToken ''c'' ''c'')) = Some 0"
    by (simp add: mkToken_def EOF_def)
  have v: "tok_value (mkToken ''c'' ''c'') = ''c'' \<and> ''c'' \<noteq> EOF"
    by (simp add: mkToken_def EOF_def)
  from zero_cell_like_absent [of zeroCellTable "GrammarSymbol ''S''" ?row "mkToken ''c'' ''c''"
      exampleGrammar newParser] row cell
  have "getDerivedRHS exampleGrammar zeroCellTable newParser (GrammarSymbol ''S'') (mkToken ''c'' ''c'') =
        Inl (Error (if tok_value (mkToken ''c'' ''c'') = EOF
                    then ''Parse error: Unexpected end of input.''
                    else ''Parse error: Unexpected token: '' @ tok_value (mkToken ''c'' ''c'') @ ''.''))"
    by blast
  with v have "getDerivedRHS exampleGrammar zeroCellTable newParser (GrammarSymbol ''S'') (mkToken ''c'' ''c'')
              = Inl (Error ''Parse error: Unexpected token: c.'')"
    by simp
  with row show ?thesis by (rule conjI)
qed

section \<open>Properties of the generated tokenizer\<close>

subsection \<open>Auxiliary facts\<close>

lemma toToken_queue [simp]: "toToken cfg (st\<lparr>tokensQueue := q\<rparr>) n v = toToken cfg st n v"
  by (simp add: toToken_def)

lemma getNextToken_queued:
  "tokensQueue st = n # ns \<Longrightarrow>
   getNextToken cfg st = Some (Inr (toToken cfg st n [], st\<lparr>tokensQueue := ns\<rparr>))"
  by (subst getNextToken.simps) simp

lemma getNextToken_match:
  assumes "tokensQueue st = []"
    and "hasMoreTokens st"
    and "rulesForCurrentState cfg st = Some lexRulesForState"
    and "scanRules cfg (slice (inputString st) (cursor st)) lexRulesForState st
           = Inr (Some (lexRule, matched, st1))"
  shows "getNextToken cfg st =
           (case callHandler cfg lexRule matched st1 of
              Inl e \<Rightarrow> Some (Inl e)
            | Inr (tokenType, st2) \<Rightarrow>
                if falsy tokenType then getNextToken cfg st2
                else Some (Inr (emitToken cfg tokenType matched st2)))"
  by (subst getNextToken.simps) (simp add: assms)



lemma emitToken_value: "tok_value (fst (emitToken cfg tokenType matched st)) = matched"
  by (simp add: emitToken_def toToken_def Let_def split: HandlerResult.splits)

lemmas tk_defs = exampleConfig_def initString_def newTokenizer_def hasMoreTokens_def
   rulesForCurrentState_def getCurrentState_def slice_def match_def literal_def callHandler_def
   emitToken_def toToken_def captureLocation_def newlineIndices_def

lemma states_invariant_step:
  "states st \<noteq> [] \<and> hd (states st) = ''INITIAL'' \<Longrightarrow>
   states (applyOp st x) \<noteq> [] \<and> hd (states (applyOp st x)) = ''INITIAL''"
  by (cases x; cases "states st")
     (auto simp add: pushState_def popState_def beginState_def getCurrentState_def)

lemma states_invariant:
  "states st \<noteq> [] \<and> hd (states st) = ''INITIAL'' \<Longrightarrow>
   states (applyOps ops st) \<noteq> [] \<and> hd (states (applyOps ops st)) = ''INITIAL''"
  unfolding applyOps_def
proof (induction ops arbitrary: st)
  case Nil
  then show ?case by simp
next
  case (Cons x ops)
  from Cons.IH [OF states_invariant_step [OF Cons.prems]] show ?case by simp
qed

subsection \<open>Claims\<close>





text \<open>
  Claim C7. After \<^verbatim>\<open>initString\<close> and any sequence of \<^verbatim>\<open>pushState\<close>,
  \<^verbatim>\<open>popState\<close> and \<^verbatim>\<open>begin\<close> calls, the stack of states has at least one
  element and its bottom is \<open>INITIAL\<close>; \<^verbatim>\<open>popState\<close> changes nothing when one
  state remains; and \<^verbatim>\<open>pushState\<close> or \<^verbatim>\<open>begin\<close> followed by
  \<^verbatim>\<open>popState\<close> gives back the tokenizer as it was, the popped state being the
  one pushed.
\<close>

theorem state_stack_never_empty:
  "length (states (applyOps ops (initString st0 text))) \<ge> 1
   \<and> hd (states (applyOps ops (initString st0 text))) = ''INITIAL''
   \<and> (length (states (applyOps ops (initString st0 text))) = 1 \<longrightarrow>
        snd (popState (applyOps ops (initString st0 text))) = applyOps ops (initString st0 text))
   \<and> snd (popState (pushState state (applyOps ops (initString st0 text))))
        = applyOps ops (initString st0 text)
   \<and> snd (popState (beginState state (applyOps ops (initString st0 text))))
        = applyOps ops (initString st0 text)
   \<and> fst (popState (pushState state (applyOps ops (initString st0 text)))) = Some state"
proof -
  let ?st = "applyOps ops (initString st0 text)"
  have "states (initString st0 text) \<noteq> [] \<and> hd (states (initString st0 text)) = ''INITIAL''"
    by (simp add: initString_def)
  from states_invariant [OF this]
  have inv: "states ?st \<noteq> [] \<and> hd (states ?st) = ''INITIAL''" .
  then have "length (states ?st) \<ge> 1"
    by (cases "states ?st") simp_all
  moreover have "length (states ?st) = 1 \<longrightarrow> snd (popState ?st) = ?st"
    by (simp add: popState_def)
  moreover have "snd (popState (pushState state ?st)) = ?st"
    using inv by (simp add: popState_def pushState_def)
  moreover have "snd (popState (beginState state ?st)) = ?st"
    using inv by (simp add: popState_def pushState_def beginState_def)
  moreover have "fst (popState (pushState state ?st)) = Some state"
    using inv by (simp add: popState_def pushState_def)
  ultimately show ?thesis using inv by simp
qed

theorem state_stack_never_empty_witness:
  "states (applyOps [PopState, PushState ''comment'', PopState, PopState]
             (initString newTokenizer ''x'')) = [''INITIAL'']
   \<and> snd (popState (applyOps [PopState, PushState ''comment'', PopState, PopState]
                       (initString newTokenizer ''x'')))
       = applyOps [PopState, PushState ''comment'', PopState, PopState]
           (initString newTokenizer ''x'')"
proof -
  let ?st = "applyOps [PopState, PushState ''comment'', PopState, PopState]
               (initString newTokenizer ''x'')"
  have s: "states ?st = [''INITIAL'']"
    by (simp add: applyOps_def popState_def pushState_def initString_def getCurrentState_def)
  then have "length (states ?st) = 1" by simp
  with state_stack_never_empty
         [of "[PopState, PushState ''comment'', PopState, PopState]" newTokenizer "''x''"]
  have "snd (popState ?st) = ?st" by blast
  with s show ?thesis by (rule conjI)
qed

text \<open>
  Claim C10. A token taken from the queue has the empty string as its value (and the
  code of the queued name as its type); the token returned for a match whose handler
  returns a name or an array of names has the matched text as its value.
\<close>

theorem queued_token_empty_value:
  "(tokensQueue st = n # ns \<longrightarrow>
      getNextToken cfg st = Some (Inr (toToken cfg st n [], st\<lparr>tokensQueue := ns\<rparr>))
      \<and> tok_value (toToken cfg st n []) = []
      \<and> tok_type (toToken cfg st n []) = tokensMap cfg n)
   \<and> (tokensQueue st = [] \<and> hasMoreTokens st
        \<and> rulesForCurrentState cfg st = Some lexRulesForState
        \<and> scanRules cfg (slice (inputString st) (cursor st)) lexRulesForState st
             = Inr (Some (lexRule, matched, st1))
        \<and> callHandler cfg lexRule matched st1 = Inr (tokenType, st2)
        \<and> \<not> falsy tokenType \<longrightarrow>
      (\<exists>tok st3. getNextToken cfg st = Some (Inr (tok, st3)) \<and> tok_value tok = matched))"
proof (intro conjI impI)
  assume "tokensQueue st = n # ns"
  then show "getNextToken cfg st = Some (Inr (toToken cfg st n [], st\<lparr>tokensQueue := ns\<rparr>))"
    by (rule getNextToken_queued)
next
  show "tok_value (toToken cfg st n []) = []"
    by (simp add: toToken_def)
next
  show "tok_type (toToken cfg st n []) = tokensMap cfg n"
    by (simp add: toToken_def)
next
  assume a: "tokensQueue st = [] \<and> hasMoreTokens st
        \<and> rulesForCurrentState cfg st = Some lexRulesForState
        \<and> scanRules cfg (slice (inputString st) (cursor st)) lexRulesForState st
             = Inr (Some (lexRule, matched, st1))
        \<and> callHandler cfg lexRule matched st1 = Inr (tokenType, st2)
        \<and> \<not> falsy tokenType"
  then have "getNextToken cfg st = Some (Inr (emitToken cfg tokenType matched st2))"
    using getNextToken_match [of st cfg lexRulesForState lexRule matched st1] by simp
  then have "getNextToken cfg st =
               Some (Inr (fst (emitToken cfg tokenType matched st2),
                          snd (emitToken cfg tokenType matched st2)))"
    by simp
  then show "\<exists>tok st3. getNextToken cfg st = Some (Inr (tok, st3)) \<and> tok_value tok = matched"
    using emitToken_value by blast
qed

theorem queued_token_empty_value_witness:
  "getNextToken exampleConfig (initString newTokenizer ''{'') =
     Some (Inr (\<lparr>tok_type = Some 7, tok_value = ''{'', startOffset = 0, endOffset = 1,
                 startLine = 1, endLine = 1, startColumn = 0, endColumn = 1\<rparr>,
                \<lparr>inputString = ''{'', states = [''INITIAL''], cursor = 1, currentLine = 1,
                 currentColumn = 1, currentLineBeginOffset = 0, tokenStartOffset = 0,
                 tokenEndOffset = 1, tokenStartLine = 1, tokenEndLine = 1,
                 tokenStartColumn = 0, tokenEndColumn = 1, tokensQueue = [''STRING''],
                 yytext = ''{'', yyleng = 1\<rparr>))
   \<and> getNextToken exampleConfig
        \<lparr>inputString = ''{'', states = [''INITIAL''], cursor = 1, currentLine = 1,
         currentColumn = 1, currentLineBeginOffset = 0, tokenStartOffset = 0,
         tokenEndOffset = 1, tokenStartLine = 1, tokenEndLine = 1,
         tokenStartColumn = 0, tokenEndColumn = 1, tokensQueue = [''STRING''],
         yytext = ''{'', yyleng = 1\<rparr> =
     Some (Inr (\<lparr>tok_type = Some 8, tok_value = [], startOffset = 0, endOffset = 1,
                 startLine = 1, endLine = 1, startColumn = 0, endColumn = 1\<rparr>,
                \<lparr>inputString = ''{'', states = [''INITIAL''], cursor = 1, currentLine = 1,
                 currentColumn = 1, currentLineBeginOffset = 0, tokenStartOffset = 0,
                 tokenEndOffset = 1, tokenStartLine = 1, tokenEndLine = 1,
                 tokenStartColumn = 0, tokenEndColumn = 1, tokensQueue = [],
                 yytext = ''{'', yyleng = 1\<rparr>))"
proof -
  let ?st = "initString newTokenizer ''{''"
  let ?st1 = "\<lparr>inputString = ''{'', states = [''INITIAL''], cursor = 1, currentLine = 1,
                 currentColumn = 1, currentLineBeginOffset = 0, tokenStartOffset = 0,
                 tokenEndOffset = 1, tokenStartLine = 1, tokenEndLine = 1,
                 tokenStartColumn = 0, tokenEndColumn = 1, tokensQueue = [],
                 yytext = [], yyleng = 0\<rparr>"
  let ?st2 = "?st1\<lparr>yytext := ''{'', yyleng := 1\<rparr>"
  let ?q = "?st2\<lparr>tokensQueue := [''STRING'']\<rparr>"
  have h: "tokensQueue ?st = [] \<and> hasMoreTokens ?st
         \<and> rulesForCurrentState exampleConfig ?st = Some [0, 1, 2]
         \<and> scanRules exampleConfig (slice (inputString ?st) (cursor ?st)) [0, 1, 2] ?st
              = Inr (Some ((literal ''{'', ''_lexRule1''), ''{'', ?st1))
         \<and> callHandler exampleConfig (literal ''{'', ''_lexRule1'') ''{'' ?st1
              = Inr (Names [''LBRACE'', ''STRING''], ?st2)
         \<and> \<not> falsy (Names [''LBRACE'', ''STRING''])"
    by (simp add: tk_defs)
  from queued_token_empty_value
         [of ?st _ _ exampleConfig "[0, 1, 2]" "(literal ''{'', ''_lexRule1'')" "''{''" ?st1
             "Names [''LBRACE'', ''STRING'']" ?st2] h
  obtain tok st3 where g: "getNextToken exampleConfig ?st = Some (Inr (tok, st3))"
    and v: "tok_value tok = ''{''"
    by blast
  have e: "getNextToken exampleConfig ?st = Some (Inr (
       \<lparr>tok_type = Some 7, tok_value = tok_value tok, startOffset = 0, endOffset = 1,
                 startLine = 1, endLine = 1, startColumn = 0, endColumn = 1\<rparr>, ?q))"
    using g v by (simp add: getNextToken.simps tk_defs)
  have qd: "tokensQueue ?q = ''STRING'' # []"
    by simp
  from queued_token_empty_value [of ?q "''STRING''" "[]" exampleConfig] qd
  have d: "getNextToken exampleConfig ?q
             = Some (Inr (toToken exampleConfig ?q ''STRING'' [], ?q\<lparr>tokensQueue := []\<rparr>))"
    by blast
  from e v d show ?thesis
    by (simp add: toToken_def exampleConfig_def)
qed

section \<open>Properties of the emission layer\<close>

text \<open>
  Claim C8. \<^verbatim>\<open>_dictKey\<close> raises the error naming the declared type when that
  type is neither \<open>string\<close> nor \<open>number\<close>, and so does \<^verbatim>\<open>_dictValue\<close> for a
  value that is not an array; for the types \<open>string\<close> and \<open>number\<close>, and for every
  array, they return a rendering.
\<close>

theorem dict_conversion_errors:
  "(keyType \<noteq> ''string'' \<and> keyType \<noteq> ''number'' \<longrightarrow>
      dictKey js key keyType = Inl (Error (''_dictKey: Incorrect type '' @ keyType)))
   \<and> (\<not> isArray js v \<and> valueType \<noteq> ''string'' \<and> valueType \<noteq> ''number'' \<longrightarrow>
      dictValue js v valueType = Inl (Error (''_dictValue: Incorrect value '' @ valueType)))
   \<and> (keyType = ''string'' \<or> keyType = ''number'' \<longrightarrow>
      (\<exists>out. dictKey js key keyType = Inr out))
   \<and> (isArray js v \<or> valueType = ''string'' \<or> valueType = ''number'' \<longrightarrow>
      (\<exists>out. dictValue js v valueType = Inr out))"
  by (auto simp add: dictKey_def dictValue_def)

theorem dict_conversion_errors_witness:
  "dictKey stringBuiltins ''x'' ''boolean'' = Inl (Error ''_dictKey: Incorrect type boolean'')
   \<and> dictValue stringBuiltins ''10'' ''boolean''
       = Inl (Error ''_dictValue: Incorrect value boolean'')
   \<and> (\<exists>out. dictKey stringBuiltins ''x'' ''string'' = Inr out)
   \<and> (\<exists>out. dictValue stringBuiltins ''10'' ''number'' = Inr out)"
proof -
  have k: "''boolean'' \<noteq> ''string'' \<and> ''boolean'' \<noteq> ''number''"
    by simp
  have a: "\<not> isArray stringBuiltins ''10''"
    by (simp add: stringBuiltins_def)
  from dict_conversion_errors [of "''boolean''" stringBuiltins "''x''" "''10''" "''boolean''"] k a
  have 1: "dictKey stringBuiltins ''x'' ''boolean'' = Inl (Error ''_dictKey: Incorrect type boolean'')"
    and 2: "dictValue stringBuiltins ''10'' ''boolean''
       = Inl (Error ''_dictValue: Incorrect value boolean'')"
    by simp_all
  from dict_conversion_errors [of "''string''" stringBuiltins "''x''" "''10''" "''number''"]
  have 3: "\<exists>out. dictKey stringBuiltins ''x'' ''string'' = Inr out"
    and 4: "\<exists>out. dictValue stringBuiltins ''10'' ''number'' = Inr out"
    by simp_all
  from 1 2 3 4 show ?thesis by simp
qed

end
